theory Spec2Isabelle
  imports Complex_Main
begin

section \<open>Python values, errors and sequence operations\<close>

text \<open>
  The repository is Python. Every exception the modelled code can raise is a value of
  \<open>error\<close>, and a fallible computation returns \<open>error + 'a\<close> with \<open>Inl\<close> for the
  exception. Values whose Python type is not fixed by the code (a dataclass attribute,
  an element that is used once as a text and once as an index) are \<open>pyval\<close>s.
  \<open>PyField d\<close> is the object that \<^verbatim>\<open>dataclasses.field(default=d, metadata=...)\<close>
  returns (\<open>None\<close> for a field without default); the metadata is a help text
  and is left out.
\<close>

datatype error = AssertionError | AttributeError | IndexError | KeyError | TypeError | ValueError

datatype pyval =
    PyNone
  | PyBool bool
  | PyInt int
  | PyStr string
  | PyTuple "pyval list"
  | PyList "pyval list"
  | PyField "pyval option"

text \<open>\<^verbatim>\<open>xs[i]\<close> for an integer \<open>i\<close>: negative indices count from the end, anything
  outside \<open>-len .. len-1\<close> raises IndexError.\<close>

definition py_index :: "'a list \<Rightarrow> int \<Rightarrow> error + 'a" where
  "py_index xs i =
     (if 0 \<le> i \<and> i < int (length xs) then Inr (xs ! nat i)
      else if - int (length xs) \<le> i \<and> i < 0 then Inr (xs ! nat (int (length xs) + i))
      else Inl IndexError)"

text \<open>\<^verbatim>\<open>xs[v]\<close> for a list \<open>xs\<close> and an arbitrary value \<open>v\<close>: only integers (and
  booleans, which are integers in Python) index a list; every other value raises
  TypeError.\<close>

fun py_getitem :: "'a list \<Rightarrow> pyval \<Rightarrow> error + 'a" where
  "py_getitem xs (PyInt i) = py_index xs i"
| "py_getitem xs (PyBool b) = py_index xs (if b then 1 else 0)"
| "py_getitem xs v = Inl TypeError"

text \<open>\<^verbatim>\<open>xs[:k]\<close>: a negative \<open>k\<close> drops the last \<open>-k\<close> elements.\<close>

definition py_slice_to :: "int \<Rightarrow> 'a list \<Rightarrow> 'a list" where
  "py_slice_to k xs = (if 0 \<le> k then take (nat k) xs else take (length xs - nat (- k)) xs)"

text \<open>\<^verbatim>\<open>range(k)\<close>, empty for \<open>k \<le> 0\<close>.\<close>

definition py_range :: "int \<Rightarrow> int list" where
  "py_range k = map int [0..<nat k]"

text \<open>\<^verbatim>\<open>sep.join(vs)\<close>: every item must be a string.\<close>

fun py_join :: "string \<Rightarrow> pyval list \<Rightarrow> error + string" where
  "py_join sep [] = Inr []"
| "py_join sep [PyStr s] = Inr s"
| "py_join sep (PyStr s # v # vs) =
     (case py_join sep (v # vs) of Inl e \<Rightarrow> Inl e | Inr r \<Rightarrow> Inr (s @ sep @ r))"
| "py_join sep (w # vs) = Inl TypeError"

text \<open>A loop body that can raise, run over a list: the first exception ends the loop.\<close>

fun for_each :: "('a \<Rightarrow> error + 'b) \<Rightarrow> 'a list \<Rightarrow> error + 'b list" where
  "for_each f [] = Inr []"
| "for_each f (x # xs) =
     (case f x of
        Inl e \<Rightarrow> Inl e
      | Inr y \<Rightarrow> (case for_each f xs of Inl e \<Rightarrow> Inl e | Inr ys \<Rightarrow> Inr (y # ys)))"

text \<open>Position of the first occurrence of \<open>x\<close> in \<open>xs\<close> (\<open>length xs\<close> when there is
  none); used to state "first-seen order" and "the classifier token's index".\<close>

definition first_pos :: "'a \<Rightarrow> 'a list \<Rightarrow> nat" where
  "first_pos x xs = length (takeWhile (\<lambda>y. y \<noteq> x) xs)"

section \<open>Sparse retrieval engine (src/retrieval/bm25_retrieval_base.py)\<close>

text \<open>
  The ranking index is the external library's \<^verbatim>\<open>BM25Okapi\<close> object. The engine uses
  two of its methods, which are parameters of the model: \<open>get_scores query\<close> (one score
  per passage) and \<open>get_top_n query documents n\<close> (the \<open>n\<close> best of \<open>documents\<close>, so
  texts when the documents are texts).
\<close>

record bm25okapi =
  get_scores :: "string list \<Rightarrow> real list"
  get_top_n :: "string list \<Rightarrow> string list \<Rightarrow> int \<Rightarrow> string list"

text \<open>The engine's state: the passage list, the ids, the injected tokenizing
  function, and the ranking index, \<open>None\<close> until \<^verbatim>\<open>get_sparse_embedding\<close> has built or
  loaded it. The data path and the unused \<^verbatim>\<open>indexer\<close> are left out.\<close>

record engine =
  contexts :: "string list"
  ids :: "int list"
  tokenize_fn :: "string \<Rightarrow> string list"
  bm25 :: "bm25okapi option"

text \<open>\<^verbatim>\<open>list(dict.fromkeys(ks))\<close>: a dict keeps its keys in insertion order and a key
  that is already present keeps its place. The second argument is the key list of the
  dict built so far.\<close>

fun dict_fromkeys :: "'a list \<Rightarrow> 'a list \<Rightarrow> 'a list" where
  "dict_fromkeys [] d = d"
| "dict_fromkeys (k # ks) d = dict_fromkeys ks (if k \<in> set d then d else d @ [k])"

text \<open>The list without its repeated elements, each kept where it is first seen: the
  reference that \<open>dict_fromkeys\<close> is compared with.\<close>

fun uniq :: "'a list \<Rightarrow> 'a list" where
  "uniq [] = []"
| "uniq (x # xs) = x # filter (\<lambda>y. y \<noteq> x) (uniq xs)"

text \<open>
  \<^verbatim>\<open>__init__\<close>. The loaded JSON object \<open>wiki\<close> is the list of its (key, value) pairs
  in file order; a value is an object, a map from field names to texts, and
  \<^verbatim>\<open>v["text"]\<close> raises KeyError when the field is missing. Reading the file and
  the line that reports the number of passages are outside the model.
\<close>

definition text_of :: "(string \<rightharpoonup> string) \<Rightarrow> error + string" where
  "text_of v = (case v ''text'' of None \<Rightarrow> Inl KeyError | Some t \<Rightarrow> Inr t)"

definition init :: "(string \<Rightarrow> string list) \<Rightarrow> (string \<times> (string \<rightharpoonup> string)) list \<Rightarrow> error + engine" where
  "init tok wiki =
     (case for_each text_of (map snd wiki) of
        Inl e \<Rightarrow> Inl e
      | Inr texts \<Rightarrow>
          (let cs = dict_fromkeys texts []
           in Inr \<lparr> contexts = cs, ids = map int [0..<length cs],
                    tokenize_fn = tok, bm25 = None \<rparr>))"

text \<open>
  What the engine does to the outside world, in order: a line it prints, a call of
  the ranking index, the timing line of the \<^verbatim>\<open>timer\<close> context manager. Progress
  bars are left out. \<open>PrintedScore n s\<close> is the line
  \<^verbatim>\<open>Top-n passage with score s\<close>.
\<close>

datatype event =
    Printed string
  | PrintedScore int real
  | Scored "string list"
  | TopN "string list" int
  | Timed

text \<open>\<^verbatim>\<open>np.argsort(a)\<close>: the indices of \<open>a\<close> in ascending order of their values.\<close>

definition argsort :: "real list \<Rightarrow> nat list" where
  "argsort a = sort_key (\<lambda>i. a ! i) [0..<length a]"

text \<open>\<^verbatim>\<open>get_relevant_doc\<close>: the \<open>k\<close> best scores, and what \<^verbatim>\<open>get_top_n\<close> returns for
  the passage list, which are texts.\<close>

definition get_relevant_doc ::
  "engine \<Rightarrow> string \<Rightarrow> int \<Rightarrow> error + ((real list \<times> pyval list) \<times> event list)" where
  "get_relevant_doc eng query k =
     (case bm25 eng of
        None \<Rightarrow> Inl AttributeError
      | Some bm \<Rightarrow>
          (let tokenized_query = tokenize_fn eng query;
               raw_doc_scores = get_scores bm tokenized_query;
               doc_scores_index_desc = argsort (map uminus raw_doc_scores);
               doc_scores = map (\<lambda>i. raw_doc_scores ! i) doc_scores_index_desc;
               doc_list = get_top_n bm tokenized_query (contexts eng) k
           in Inr ((py_slice_to k doc_scores, map PyStr doc_list),
                   [Scored tokenized_query, TopN tokenized_query k])))"

text \<open>A row of the dataset given to the batch form, and a row of the table it returns.
  \<open>example_context\<close> (the key \<^verbatim>\<open>context\<close>) and \<open>answers\<close> are \<open>None\<close> when the
  example has no such key; \<open>example_id\<close> is the key \<^verbatim>\<open>id\<close>.\<close>

record 'a example =
  question :: string
  example_id :: string
  example_context :: "string option"
  answers :: "'a option"

record 'a row =
  row_question :: string
  row_id :: string
  context_id :: "pyval list"
  row_context :: string
  original_context :: "string option"
  row_answers :: "'a option"

text \<open>The argument of \<^verbatim>\<open>retrieve\<close> by its run-time type: a \<^verbatim>\<open>str\<close>, a
  \<^verbatim>\<open>Dataset\<close>, or anything else. Its result: the pair of the single-query form,
  the table of the batch form, or Python's \<^verbatim>\<open>None\<close>.\<close>

datatype 'a argument = Query string | Batch "'a example list" | Other pyval

datatype 'a result = Hits "real list" "string list" | Table "'a row list" | NoResult

text \<open>The body of the single-query form's printing loop, for one \<open>i\<close>.\<close>

definition show_hit :: "engine \<Rightarrow> real list \<Rightarrow> pyval list \<Rightarrow> int \<Rightarrow> error + event list" where
  "show_hit eng doc_scores doc_indices i =
     (case py_index doc_scores i of
        Inl e \<Rightarrow> Inl e
      | Inr s \<Rightarrow>
          (case py_index doc_indices i of
             Inl e \<Rightarrow> Inl e
           | Inr d \<Rightarrow>
               (case py_getitem (contexts eng) d of
                  Inl e \<Rightarrow> Inl e
                | Inr t \<Rightarrow> Inr [PrintedScore (i + 1) s, Printed t])))"

text \<open>One element of the list comprehension
  \<^verbatim>\<open>[self.contexts[doc_indices[i]] for i in range(topk)]\<close>.\<close>

definition hit_text :: "engine \<Rightarrow> pyval list \<Rightarrow> int \<Rightarrow> error + string" where
  "hit_text eng doc_indices i =
     (case py_index doc_indices i of
        Inl e \<Rightarrow> Inl e
      | Inr d \<Rightarrow> py_getitem (contexts eng) d)"

text \<open>The body of the batch form's second loop: the record of one example, from the
  example and the second component of its \<^verbatim>\<open>get_relevant_doc\<close> result.\<close>

definition make_row :: "'a example \<Rightarrow> pyval list \<Rightarrow> error + 'a row" where
  "make_row ex doc_indice =
     (case py_join '' '' doc_indice of
        Inl e \<Rightarrow> Inl e
      | Inr joined \<Rightarrow>
          Inr \<lparr> row_question = question ex, row_id = example_id ex,
                context_id = doc_indice, row_context = joined,
                original_context =
                  (if example_context ex \<noteq> None \<and> answers ex \<noteq> None then example_context ex else None),
                row_answers =
                  (if example_context ex \<noteq> None \<and> answers ex \<noteq> None then answers ex else None) \<rparr>)"

definition retrieve :: "engine \<Rightarrow> 'a argument \<Rightarrow> int \<Rightarrow> error + ('a result \<times> event list)" where
  "retrieve eng query_or_dataset topk =
     (if bm25 eng = None then Inl AssertionError
      else
        (case query_or_dataset of
           Query q \<Rightarrow>
             (case get_relevant_doc eng q topk of
                Inl e \<Rightarrow> Inl e
              | Inr ((doc_scores, doc_indices), called) \<Rightarrow>
                  (case for_each (show_hit eng doc_scores doc_indices) (py_range topk) of
                     Inl e \<Rightarrow> Inl e
                   | Inr shown \<Rightarrow>
                       (case for_each (hit_text eng doc_indices) (py_range topk) of
                          Inl e \<Rightarrow> Inl e
                        | Inr texts \<Rightarrow>
                            Inr (Hits doc_scores texts,
                                 called @ [Printed ''[Search query]'', Printed q]
                                   @ concat shown))))
         | Batch dataset \<Rightarrow>
             (case for_each (\<lambda>ex. get_relevant_doc eng (question ex) topk) dataset of
                Inl e \<Rightarrow> Inl e
              | Inr found \<Rightarrow>
                  (case for_each (\<lambda>(ex, hit). make_row ex (snd (fst hit))) (zip dataset found) of
                     Inl e \<Rightarrow> Inl e
                   | Inr total_rows \<Rightarrow> Inr (Table total_rows, concat (map snd found) @ [Timed])))
         | Other v \<Rightarrow> Inr (NoResult, [])))"

text \<open>Texts separated by \<open>sep\<close>: what \<^verbatim>\<open>sep.join\<close> yields on a list of strings.\<close>

fun join :: "string \<Rightarrow> string list \<Rightarrow> string" where
  "join sep [] = []"
| "join sep [s] = s"
| "join sep (s # t # ts) = s @ sep @ join sep (t # ts)"

text \<open>A small engine for concrete runs: two passages, a tokenizer that splits at
  nothing, and an index that scores the first passage 2 and the second 1 for every
  query.\<close>

definition demo_bm25 :: bm25okapi where
  "demo_bm25 = \<lparr> get_scores = (\<lambda>q. [2, 1]), get_top_n = (\<lambda>q docs n. py_slice_to n docs) \<rparr>"

definition demo_engine :: engine where
  "demo_engine = \<lparr> contexts = [''a b'', ''c d''], ids = [0, 1],
                    tokenize_fn = (\<lambda>s. [s]), bm25 = Some demo_bm25 \<rparr>"

section \<open>Configuration schema (src/arguments.py)\<close>

text \<open>
  A class decorated with \<^verbatim>\<open>@dataclass\<close> is the list of its annotated attributes, in
  order, each with the value the class body assigns to it. The decorator takes the
  default of a field from that value: the \<open>default\<close> of a \<^verbatim>\<open>field(...)\<close> object, and
  the value itself for anything else. The annotation (\<^verbatim>\<open>int\<close>, \<^verbatim>\<open>str\<close>) is not
  enforced by Python and is left out.
\<close>

type_synonym class_body = "(string \<times> pyval) list"

fun field_default :: "pyval \<Rightarrow> pyval option" where
  "field_default (PyField d) = d"
| "field_default v = Some v"

text \<open>The decorator refuses a list as a default (ValueError: mutable default); a
  tuple is accepted.\<close>

fun mutable_default :: "pyval \<Rightarrow> bool" where
  "mutable_default (PyList vs) = True"
| "mutable_default v = False"

definition dataclass :: "class_body \<Rightarrow> error + class_body" where
  "dataclass body =
     (if list_ex (\<lambda>(n, v). mutable_default v) body then Inl ValueError else Inr body)"

text \<open>The generated \<^verbatim>\<open>__init__\<close>, called with keyword arguments: an unknown keyword
  and a missing argument of a field without default raise TypeError; the instance is
  the list of its attributes.\<close>

definition init_field :: "(string \<times> pyval) list \<Rightarrow> string \<times> pyval \<Rightarrow> error + (string \<times> pyval)" where
  "init_field kwargs f =
     (case map_of kwargs (fst f) of
        Some a \<Rightarrow> Inr (fst f, a)
      | None \<Rightarrow>
          (case field_default (snd f) of
             None \<Rightarrow> Inl TypeError
           | Some d \<Rightarrow> Inr (fst f, d)))"

definition construct :: "class_body \<Rightarrow> (string \<times> pyval) list \<Rightarrow> error + (string \<times> pyval) list" where
  "construct body kwargs =
     (case dataclass body of
        Inl e \<Rightarrow> Inl e
      | Inr cls \<Rightarrow>
          (if list_ex (\<lambda>(k, a). k \<notin> set (map fst cls)) kwargs then Inl TypeError
           else for_each (init_field kwargs) cls))"


definition ModelArguments :: class_body where
  "ModelArguments = [(''name_or_path'', PyField (Some (PyStr ''klue/bert-base'')))]"

definition DataArguments :: class_body where
  "DataArguments =
     [(''dataset_path'', PyField (Some (PyStr ''/opt/ml/data/train_dataset''))),
      (''max_length'', PyField (Some (PyInt 512))),
      (''stride'', PyField (Some (PyInt 128))),
      (''max_answer_length'', PyField (Some (PyInt 32)))]"

definition EarlyStoppingArguments :: class_body where
  "EarlyStoppingArguments =
     [(''setting'', PyField (Some (PyBool False))),
      (''patience'', PyField (Some (PyInt 5)))]"

text \<open>In \<^verbatim>\<open>InferenceArguments\<close> a comma follows the \<^verbatim>\<open>field(...)\<close> call inside the
  parentheses, so the value assigned to \<open>topk\<close> is a one-element tuple that holds the
  field object.\<close>

definition InferenceArguments :: class_body where
  "InferenceArguments =
     [(''topk'', PyTuple [PyField (Some (PyInt 5))]),
      (''output_dir'', PyField (Some (PyStr ''/opt/ml/code/outputs/sample'')))]"

section \<open>Entry point and mode dispatcher (main.py)\<close>

text \<open>
  A leaf of the loaded configuration is a YAML scalar. \<open>format_scalar\<close> is what an
  f-string makes of it (\<^verbatim>\<open>str(v)\<close>).
\<close>

datatype scalar = SNull | SBool bool | SInt int | SStr string

definition digit :: "nat \<Rightarrow> char" where
  "digit n = ''0123456789'' ! n"

function decimal :: "nat \<Rightarrow> string" where
  "decimal n = (if n < 10 then [digit n] else decimal (n div 10) @ [digit (n mod 10)])"
  by pat_completeness auto
termination
  by (relation "measure (\<lambda>n. n)") auto

fun format_scalar :: "scalar \<Rightarrow> string" where
  "format_scalar SNull = ''None''"
| "format_scalar (SBool b) = (if b then ''True'' else ''False'')"
| "format_scalar (SInt i) = (if i < 0 then ''-'' @ decimal (nat (- i)) else decimal (nat i))"
| "format_scalar (SStr s) = s"

text \<open>
  The loaded configuration, with the fields \<^verbatim>\<open>inner_main\<close> reads. The groups
  \<open>model\<close>, \<open>data\<close>, \<open>train\<close> and \<open>hp\<close> are handed to the routines whole; their
  schemas are not in the sources and they are type parameters.
\<close>

record project_group =
  base_path :: scalar
  name :: scalar

record wandb_group =
  entity :: scalar
  project :: scalar

record ('m, 'd, 't, 'h) config =
  mode :: scalar
  cfg_project :: project_group
  cfg_wandb :: wandb_group
  cfg_model :: 'm
  cfg_data :: 'd
  cfg_train :: 't
  cfg_hp :: 'h

text \<open>What a run does, in order: a printed line, an environment variable set, or the
  call of one of the three routines (which live outside the sources) with its
  arguments.\<close>

datatype ('m, 'd, 't, 'h) effect =
    Print string
  | SetEnv string string
  | Call_train project_group 'm 'd 't
  | Call_hp_optimizing project_group 'm 'd 'h
  | Call_inference 'm 'd

text \<open>\<^verbatim>\<open>os.environ[k] = v\<close> raises TypeError unless \<open>v\<close> is a string.\<close>

definition set_environ :: "string \<Rightarrow> scalar \<Rightarrow> error + ('m, 'd, 't, 'h) effect" where
  "set_environ k v = (case v of SStr s \<Rightarrow> Inr (SetEnv k s) | _ \<Rightarrow> Inl TypeError)"

text \<open>The placeholder line of the \<open>retrieval_train\<close> mode; its last three characters
  are Korean and stand here as their UTF-8 bytes.\<close>

definition placeholder_line :: string where
  "placeholder_line = ''dense retrieval train '' @
     [char_of (0xEB :: nat), char_of (0xA7 :: nat), char_of (0x8C :: nat),
      char_of (0xEB :: nat), char_of (0x93 :: nat), char_of (0xA4 :: nat),
      char_of (0xEA :: nat), char_of (0xB8 :: nat), char_of (0xB0 :: nat)]"

definition inner_main :: "('m, 'd, 't, 'h) config \<Rightarrow> error + ('m, 'd, 't, 'h) effect list" where
  "inner_main cfg =
     (case set_environ ''WANDB_ENTITY'' (entity (cfg_wandb cfg)) of
        Inl e \<Rightarrow> Inl e
      | Inr set_entity \<Rightarrow>
          (case set_environ ''WANDB_PROJECT'' (project (cfg_wandb cfg)) of
             Inl e \<Rightarrow> Inl e
           | Inr set_project \<Rightarrow>
               Inr ([Print (''Start '' @ format_scalar (name (cfg_project cfg)) @ '' !''),
                     set_entity, set_project]
                    @ (if mode cfg = SStr ''model_train'' then
                         [Call_train (cfg_project cfg) (cfg_model cfg) (cfg_data cfg) (cfg_train cfg)]
                       else if mode cfg = SStr ''hyperparameter_tune'' then
                         [Call_hp_optimizing (cfg_project cfg) (cfg_model cfg) (cfg_data cfg) (cfg_hp cfg)]
                       else if mode cfg = SStr ''retrieval_train'' then
                         [Print placeholder_line]
                       else if mode cfg = SStr ''inference'' then
                         [Call_inference (cfg_model cfg) (cfg_data cfg)]
                       else []))))"

section \<open>Feature preparation (src/magic_box/preprocess.py)\<close>

text \<open>
  Questions, contexts and answers are Korean text: a text is the list of its code
  points, which is what Python's \<^verbatim>\<open>len\<close> and slices count. An offset mapping gives a
  token its character span \<open>(start, end)\<close>; a sequence id is \<open>None\<close> for a special
  token and 0 or 1 for a token of the first or second text.
\<close>

type_synonym ustr = "nat list"

type_synonym offsets = "(int \<times> int) list"

text \<open>The \<^verbatim>\<open>answers\<close> of one example: the keys \<^verbatim>\<open>answer_start\<close> and \<^verbatim>\<open>text\<close>.\<close>

record answer =
  answer_start :: "int list"
  answer_text :: "ustr list"

text \<open>\<^verbatim>\<open>xs.index(x)\<close>: the first position of \<open>x\<close>, ValueError when there is none.\<close>

fun list_index :: "'a list \<Rightarrow> 'a \<Rightarrow> error + int" where
  "list_index [] x = Inl ValueError"
| "list_index (y # ys) x =
     (if y = x then Inr 0
      else (case list_index ys x of Inl e \<Rightarrow> Inl e | Inr i \<Rightarrow> Inr (i + 1)))"

text \<open>
  The loops \<^verbatim>\<open>while p(xs[i]): i += 1\<close> and \<^verbatim>\<open>while p(xs[i]): i -= 1\<close>. Neither checks
  a bound: the subscript raises IndexError when \<open>i\<close> leaves \<open>-len .. len-1\<close>, and below
  0 the downward loop reads the list from its end again.
\<close>

function scan_up :: "('a \<Rightarrow> bool) \<Rightarrow> 'a list \<Rightarrow> int \<Rightarrow> error + int" where
  "scan_up p xs i =
     (case py_index xs i of
        Inl e \<Rightarrow> Inl e
      | Inr x \<Rightarrow> (if p x then scan_up p xs (i + 1) else Inr i))"
  by pat_completeness auto
termination
  by (relation "measure (\<lambda>(p, xs, i). nat (int (length xs) - i))")
     (auto simp: py_index_def split: if_splits)

function scan_down :: "('a \<Rightarrow> bool) \<Rightarrow> 'a list \<Rightarrow> int \<Rightarrow> error + int" where
  "scan_down p xs i =
     (case py_index xs i of
        Inl e \<Rightarrow> Inl e
      | Inr x \<Rightarrow> (if p x then scan_down p xs (i - 1) else Inr i))"
  by pat_completeness auto
termination
  by (relation "measure (\<lambda>(p, xs, i). nat (int (length xs) + i + 1))")
     (auto simp: py_index_def split: if_splits)

text \<open>The loop
  \<^verbatim>\<open>while token_start_index < len(offsets) and offsets[token_start_index][0] <= start_char\<close>,
  which stops at the end of the list.\<close>

function advance_start :: "offsets \<Rightarrow> int \<Rightarrow> int \<Rightarrow> error + int" where
  "advance_start offs start_char i =
     (if i < int (length offs) then
        (case py_index offs i of
           Inl e \<Rightarrow> Inl e
         | Inr off \<Rightarrow>
             (if fst off \<le> start_char then advance_start offs start_char (i + 1) else Inr i))
      else Inr i)"
  by pat_completeness auto
termination
  by (relation "measure (\<lambda>(offs, start_char, i). nat (int (length offs) - i))") auto

text \<open>
  The containment test and the two converging loops, which both train sub-modes run
  after they have found where the context starts and ends. Python's \<^verbatim>\<open>and\<close> does not
  read \<^verbatim>\<open>offsets[token_end_index]\<close> when its first operand is false.
\<close>

definition locate :: "offsets \<Rightarrow> int \<Rightarrow> int \<Rightarrow> int \<Rightarrow> int \<Rightarrow> int \<Rightarrow> error + (int \<times> int)" where
  "locate offs token_start_index token_end_index start_char end_char cls_index =
     (case py_index offs token_start_index of
        Inl e \<Rightarrow> Inl e
      | Inr first_off \<Rightarrow>
          (if \<not> fst first_off \<le> start_char then Inr (cls_index, cls_index)
           else
             (case py_index offs token_end_index of
                Inl e \<Rightarrow> Inl e
              | Inr last_off \<Rightarrow>
                  (if \<not> snd last_off \<ge> end_char then Inr (cls_index, cls_index)
                   else
                     (case advance_start offs start_char token_start_index of
                        Inl e \<Rightarrow> Inl e
                      | Inr s \<Rightarrow>
                          (case scan_down (\<lambda>off. snd off \<ge> end_char) offs token_end_index of
                             Inl e \<Rightarrow> Inl e
                           | Inr t \<Rightarrow> Inr (s - 1, t + 1)))))))"

text \<open>
  The body of the labelling loop of the encoder variant, for one feature: its input
  ids \<open>token_ids\<close>, its sequence ids \<open>sids\<close> and its offsets \<open>offs\<close>, and the answers \<open>ans\<close>
  of the example it comes from. The result is the pair (start position, end position).
\<close>

definition label_feature ::
  "bool \<Rightarrow> int \<Rightarrow> int list \<Rightarrow> int option list \<Rightarrow> offsets \<Rightarrow> answer \<Rightarrow> error + (int \<times> int)" where
  "label_feature pad_on_right cls_token_id token_ids sids offs ans =
     (case list_index token_ids cls_token_id of
        Inl e \<Rightarrow> Inl e
      | Inr cls_index \<Rightarrow>
          (if length (answer_start ans) = 0 then Inr (cls_index, cls_index)
           else
             (case py_index (answer_start ans) 0 of
                Inl e \<Rightarrow> Inl e
              | Inr start_char \<Rightarrow>
                  (case py_index (answer_text ans) 0 of
                     Inl e \<Rightarrow> Inl e
                   | Inr txt \<Rightarrow>
                       (case scan_up (\<lambda>s. s \<noteq> Some (if pad_on_right then 1 else 0))
                               sids 0 of
                          Inl e \<Rightarrow> Inl e
                        | Inr token_start_index \<Rightarrow>
                            (case scan_down (\<lambda>s. s \<noteq> Some (if pad_on_right then 1 else 0))
                                    sids (int (length token_ids) - 1) of
                               Inl e \<Rightarrow> Inl e
                             | Inr token_end_index \<Rightarrow>
                                 locate offs token_start_index token_end_index start_char
                                   (start_char + int (length txt)) cls_index))))))"

text \<open>
  The body of the labelling loop of the sequence-to-sequence variant, for one
  feature: \<open>extra_ids\<close> are the input ids of the tokenized prefix and \<open>extra_input\<close> is
  the prefix string. The fallback label is the tokenizer's end-of-sequence token id.
\<close>

definition label_feature_T5 ::
  "int \<Rightarrow> int \<Rightarrow> int list \<Rightarrow> offsets \<Rightarrow> int list \<Rightarrow> ustr \<Rightarrow> answer \<Rightarrow> error + (int \<times> int)" where
  "label_feature_T5 eos_token_id pad_token_id token_ids offs extra_ids extra_input ans =
     (let additional_token_length = int (length (butlast extra_ids));
          additional_text_length = int (length extra_input);
          cls_index = eos_token_id
      in if length (answer_start ans) = 0 then Inr (cls_index, cls_index)
         else
           (case py_index (answer_start ans) 0 of
              Inl e \<Rightarrow> Inl e
            | Inr first_start \<Rightarrow>
                (case py_index (answer_text ans) 0 of
                   Inl e \<Rightarrow> Inl e
                 | Inr txt \<Rightarrow>
                     (case scan_down (\<lambda>t. t = pad_token_id \<or> t = eos_token_id)
                             token_ids (int (length token_ids) - 1) of
                        Inl e \<Rightarrow> Inl e
                      | Inr token_end_index \<Rightarrow>
                          locate offs additional_token_length token_end_index
                            (first_start + additional_text_length)
                            (first_start + additional_text_length + int (length txt) + 1)
                            cls_index))))"

text \<open>
  The tokenizer is external. It is a parameter: its padding side, its special token
  ids, and \<open>encode\<close>, the call \<^verbatim>\<open>tokenizer(...)\<close> with the keyword arguments the code
  passes, which returns the features of the batch.
\<close>

record tokenizer_call =
  call_text :: "ustr list"
  call_text_pair :: "ustr list option"
  truncation :: string
  max_length :: int
  stride :: "int option"
  return_overflowing_tokens :: bool
  return_offsets_mapping :: bool
  padding :: string
  return_token_type_ids :: "bool option"

record batch_encoding =
  input_ids :: "int list list"
  sequence_ids :: "int option list list"
  offset_mapping :: "offsets list"
  overflow_to_sample_mapping :: "int list"

record tokenizer =
  padding_side :: string
  cls_token_id :: int
  eos_token_id :: int
  pad_token_id :: int
  encode :: "tokenizer_call \<Rightarrow> batch_encoding"

record dataset_args =
  max_seq_length :: int
  doc_stride :: int

text \<open>A batch of examples, by column: the keys \<^verbatim>\<open>question\<close>, \<^verbatim>\<open>context\<close> and
  \<^verbatim>\<open>answers\<close>.\<close>

record qa_batch =
  batch_question :: "ustr list"
  batch_context :: "ustr list"
  batch_answers :: "answer list"

text \<open>\<^verbatim>\<open>q.lstrip()\<close> removes the leading white space, by Python's \<^verbatim>\<open>str.isspace\<close>.\<close>

definition is_space :: "nat \<Rightarrow> bool" where
  "is_space c \<longleftrightarrow>
     (0x9 \<le> c \<and> c \<le> 0xD) \<or> (0x1C \<le> c \<and> c \<le> 0x20) \<or> c = 0x85 \<or> c = 0xA0 \<or> c = 0x1680
     \<or> (0x2000 \<le> c \<and> c \<le> 0x200A) \<or> c = 0x2028 \<or> c = 0x2029 \<or> c = 0x202F \<or> c = 0x205F
     \<or> c = 0x3000"

definition lstrip :: "ustr \<Rightarrow> ustr" where
  "lstrip q = dropWhile is_space q"

text \<open>The result of a train sub-mode: the tokenizer's output with the two label
  columns. The code pops the offset mapping (and, in the encoder variant, the
  overflow-to-sample mapping) from the tokenizer's output before it labels; a popped
  column is empty in \<open>features\<close>.\<close>

record train_features =
  features :: batch_encoding
  start_positions :: "int list"
  end_positions :: "int list"

text \<open>\<^verbatim>\<open>prepare_train_features\<close> of the encoder variant: one run of the loop body per
  entry of the offset mapping. The loop looks the classifier token up right after it
  has read the input ids, before the other lookups, so a feature without classifier
  token raises ValueError first; \<open>label_feature\<close> then finds the same index again.\<close>

definition prepare_train_features ::
  "tokenizer \<Rightarrow> dataset_args \<Rightarrow> bool \<Rightarrow> qa_batch \<Rightarrow> error + train_features" where
  "prepare_train_features tok args is_roberta examples =
     (let questions = map lstrip (batch_question examples);
          pad_on_right = (padding_side tok = ''right'');
          tokenized_examples = encode tok
            \<lparr> call_text = (if pad_on_right then questions else batch_context examples),
              call_text_pair = Some (if pad_on_right then batch_context examples else questions),
              truncation = (if pad_on_right then ''only_second'' else ''only_first''),
              max_length = max_seq_length args,
              stride = Some (doc_stride args),
              return_overflowing_tokens = True,
              return_offsets_mapping = True,
              padding = ''max_length'',
              return_token_type_ids = Some (\<not> is_roberta) \<rparr>
      in (case for_each
                 (\<lambda>(i, offs).
                    (case py_index (input_ids tokenized_examples) i of
                       Inl e \<Rightarrow> Inl e
                     | Inr token_ids \<Rightarrow>
                         (case list_index token_ids (cls_token_id tok) of
                            Inl e \<Rightarrow> Inl e
                          | Inr cls_index \<Rightarrow>
                         (case py_index (sequence_ids tokenized_examples) i of
                            Inl e \<Rightarrow> Inl e
                          | Inr sids \<Rightarrow>
                              (case py_index (overflow_to_sample_mapping tokenized_examples) i of
                                 Inl e \<Rightarrow> Inl e
                               | Inr sample_index \<Rightarrow>
                                   (case py_index (batch_answers examples) sample_index of
                                      Inl e \<Rightarrow> Inl e
                                    | Inr ans \<Rightarrow>
                                        label_feature pad_on_right (cls_token_id tok) token_ids sids
                                          offs ans))))))
                 (zip (map int [0..<length (offset_mapping tokenized_examples)])
                      (offset_mapping tokenized_examples)) of
            Inl e \<Rightarrow> Inl e
          | Inr labels \<Rightarrow>
              Inr \<lparr> features = tokenized_examples
                               \<lparr> offset_mapping := [], overflow_to_sample_mapping := [] \<rparr>,
                    start_positions = map fst labels, end_positions = map snd labels \<rparr>))"

text \<open>The two prompt strings of the sequence-to-sequence variant,
  \<^verbatim>\<open>f"Q: {q}  C: {c}"\<close> and \<^verbatim>\<open>f"Q: {q}  C:"\<close> with the Korean words for question
  (U+C9C8 U+BB38) and passage (U+C9C0 U+BB38) in place of Q and C.\<close>

definition prompt :: "ustr \<Rightarrow> ustr \<Rightarrow> ustr" where
  "prompt q c = [0xC9C8, 0xBB38, 0x3A, 0x20] @ q @ [0x20, 0x20, 0xC9C0, 0xBB38, 0x3A, 0x20] @ c"

definition prompt_prefix :: "ustr \<Rightarrow> ustr" where
  "prompt_prefix q = [0xC9C8, 0xBB38, 0x3A, 0x20] @ q @ [0x20, 0x20, 0xC9C0, 0xBB38, 0x3A]"

text \<open>\<^verbatim>\<open>prepare_train_features\<close> of the sequence-to-sequence variant. Both tokenizer
  calls have the fixed bound 512; the example of feature \<open>i\<close> is example \<open>i\<close>.\<close>

definition prepare_train_features_T5 :: "tokenizer \<Rightarrow> qa_batch \<Rightarrow> error + train_features" where
  "prepare_train_features_T5 tok examples =
     (let questions = map lstrip (batch_question examples);
          inputs = map (\<lambda>(q, c). prompt q c) (zip questions (batch_context examples));
          extra_inputs = map prompt_prefix questions;
          tokenized_extras = encode tok
            \<lparr> call_text = extra_inputs, call_text_pair = None, truncation = ''True'',
              max_length = 512, stride = None, return_overflowing_tokens = False,
              return_offsets_mapping = True, padding = ''False'',
              return_token_type_ids = None \<rparr>;
          tokenized_examples = encode tok
            \<lparr> call_text = inputs, call_text_pair = None, truncation = ''True'',
              max_length = 512, stride = None, return_overflowing_tokens = False,
              return_offsets_mapping = True, padding = ''max_length'',
              return_token_type_ids = None \<rparr>
      in (case for_each
                 (\<lambda>(i, offs).
                    (case py_index (input_ids tokenized_examples) i of
                       Inl e \<Rightarrow> Inl e
                     | Inr token_ids \<Rightarrow>
                         (case py_index (input_ids tokenized_extras) i of
                            Inl e \<Rightarrow> Inl e
                          | Inr extra_ids \<Rightarrow>
                              (case py_index extra_inputs i of
                                 Inl e \<Rightarrow> Inl e
                               | Inr extra_input \<Rightarrow>
                                   (case py_index (batch_answers examples) i of
                                      Inl e \<Rightarrow> Inl e
                                    | Inr ans \<Rightarrow>
                                        label_feature_T5 (eos_token_id tok) (pad_token_id tok) token_ids
                                          offs extra_ids extra_input ans)))))
                 (zip (map int [0..<length (offset_mapping tokenized_examples)])
                      (offset_mapping tokenized_examples)) of
            Inl e \<Rightarrow> Inl e
          | Inr labels \<Rightarrow>
              Inr \<lparr> features = tokenized_examples \<lparr> offset_mapping := [] \<rparr>,
                    start_positions = map fst labels, end_positions = map snd labels \<rparr>))"







text \<open>A text of Latin letters as its code points, to write concrete inputs.\<close>

definition latin :: "string \<Rightarrow> ustr" where
  "latin s = map of_char s"

text \<open>
  A concrete feature of the encoder variant, padding on the right: the question
  \<open>What color?\<close> and the context \<open>The quick brown fox\<close>, as the tokens
  \<^verbatim>\<open>[CLS] What color ? [SEP] The quick brown fox [SEP] [PAD] [PAD]\<close>.
\<close>

definition fox_ids :: "int list" where
  "fox_ids = [2, 11, 12, 13, 3, 21, 22, 23, 24, 3, 0, 0]"

definition fox_sequence_ids :: "int option list" where
  "fox_sequence_ids =
     [None, Some 0, Some 0, Some 0, None, Some 1, Some 1, Some 1, Some 1, None, None, None]"

definition fox_offsets :: offsets where
  "fox_offsets =
     [(0, 0), (0, 4), (5, 10), (10, 11), (0, 0), (0, 3), (4, 9), (10, 15), (16, 19),
      (0, 0), (0, 0), (0, 0)]"





section \<open>Properties of the sequence operations\<close>

lemma for_each_total: "for_each (\<lambda>x. Inr (g x)) xs = Inr (map g xs)"
  by (induction xs) auto

lemma for_each_map: "for_each f (map h xs) = for_each (\<lambda>x. f (h x)) xs"
  by (induction xs) (auto split: sum.splits)

lemma zip_map_same: "zip xs (map g xs) = map (\<lambda>x. (x, g x)) xs"
  by (induction xs) auto

lemma py_join_texts: "py_join sep (map PyStr ts) = Inr (join sep ts)"
  by (induction sep ts rule: join.induct) auto

lemma py_range_pos: "0 < k \<Longrightarrow> py_range k = 0 # map int [1..<nat k]"
  by (simp add: py_range_def upt_conv_Cons)


lemma first_pos_Cons: "first_pos x (y # ys) = (if y = x then 0 else Suc (first_pos x ys))"
  by (simp add: first_pos_def)




section \<open>The passage corpus\<close>

lemma set_uniq: "set (uniq xs) = set xs"
  by (induction xs) auto

lemma distinct_uniq: "distinct (uniq xs)"
  by (induction xs) auto

text \<open>The dict under construction only ever grows at its end, by the keys it does not
  hold yet.\<close>

lemma dict_fromkeys_uniq: "dict_fromkeys ks d = d @ filter (\<lambda>x. x \<notin> set d) (uniq ks)"
proof (induction ks arbitrary: d)
  case Nil
  then show ?case by simp
next
  case (Cons k ks)
  show ?case
  proof (cases "k \<in> set d")
    case True
    then have "filter (\<lambda>x. x \<notin> set d) (filter (\<lambda>y. y \<noteq> k) (uniq ks))
             = filter (\<lambda>x. x \<notin> set d) (uniq ks)"
      by (auto intro: filter_cong)
    with True Cons show ?thesis by simp
  next
    case False
    have "filter (\<lambda>x. x \<notin> set (d @ [k])) (uniq ks)
        = filter (\<lambda>x. x \<notin> set d) (filter (\<lambda>y. y \<noteq> k) (uniq ks))"
      by (auto intro: filter_cong)
    with False Cons show ?thesis by simp
  qed
qed

lemma sorted_uniq: "sorted_wrt (\<lambda>a b. first_pos a xs < first_pos b xs) (uniq xs)"
proof (induction xs)
  case Nil
  then show ?case by simp
next
  case (Cons x xs)
  have "sorted_wrt (\<lambda>a b. first_pos a xs < first_pos b xs) (filter (\<lambda>y. y \<noteq> x) (uniq xs))"
    using Cons by (rule sorted_wrt_filter)
  then have "sorted_wrt (\<lambda>a b. first_pos a (x # xs) < first_pos b (x # xs))
               (filter (\<lambda>y. y \<noteq> x) (uniq xs))"
    by (rule sorted_wrt_mono_rel[rotated]) (auto simp: first_pos_Cons)
  then show ?case by (auto simp: first_pos_Cons)
qed

lemma for_each_text_of:
  "\<forall>v \<in> set vs. v ''text'' \<noteq> None \<Longrightarrow>
     for_each text_of vs = Inr (map (\<lambda>v. the (v ''text'')) vs)"
  by (induction vs) (auto simp: text_of_def)

text \<open>
  Claim C9. Constructing the engine from a corpus object all of whose values have a
  \<open>text\<close> field succeeds, and the passage list holds each distinct text exactly once
  (it is duplicate-free and has the same elements as the texts of the file), in
  first-seen order (a passage that stands before another was first seen before it);
  the ids are as many as the passages and the id at each position is that position,
  counted from 0. The ranking index starts unset.
\<close>

theorem init_deduplicates_in_first_seen_order:
  assumes "\<forall>v \<in> set (map snd wiki). v ''text'' \<noteq> None"
  shows "\<exists>eng. init tok wiki = Inr eng
           \<and> distinct (contexts eng)
           \<and> set (contexts eng) = set (map (\<lambda>kv. the (snd kv ''text'')) wiki)
           \<and> (\<forall>i j. i < j \<and> j < length (contexts eng) \<longrightarrow>
                  first_pos (contexts eng ! i) (map (\<lambda>kv. the (snd kv ''text'')) wiki)
                    < first_pos (contexts eng ! j) (map (\<lambda>kv. the (snd kv ''text'')) wiki))
           \<and> length (ids eng) = length (contexts eng)
           \<and> (\<forall>i < length (contexts eng). ids eng ! i = int i)
           \<and> bm25 eng = None"
proof -
  let ?texts = "map (\<lambda>kv. the (snd kv ''text'')) wiki"
  have t: "for_each text_of (map snd wiki) = Inr ?texts"
    using for_each_text_of[OF assms] by (simp add: comp_def)
  have c: "dict_fromkeys ?texts [] = uniq ?texts"
    by (simp add: dict_fromkeys_uniq)
  have o: "\<forall>i j. i < j \<and> j < length (uniq ?texts) \<longrightarrow>
             first_pos (uniq ?texts ! i) ?texts < first_pos (uniq ?texts ! j) ?texts"
    using sorted_uniq[of ?texts] by (simp add: sorted_wrt_iff_nth_less)
  show ?thesis
    unfolding init_def t using o by (simp add: c Let_def distinct_uniq set_uniq)
qed

text \<open>The text \<open>a\<close> stands under two keys of the file and is kept once, at id 0.\<close>

theorem init_deduplicates_in_first_seen_order_witness:
  "\<exists>eng. init (\<lambda>s. [s])
            [(''k0'', [''text'' \<mapsto> ''a'']), (''k1'', [''text'' \<mapsto> ''b'']),
             (''k2'', [''text'' \<mapsto> ''a''])] = Inr eng
         \<and> contexts eng = [''a'', ''b''] \<and> ids eng = [0, 1]
         \<and> distinct (contexts eng) \<and> ids eng ! 1 = 1"
proof -
  let ?wiki = "[(''k0'', [''text'' \<mapsto> ''a'']), (''k1'', [''text'' \<mapsto> ''b'']),
                (''k2'', [''text'' \<mapsto> ''a''])]"
  have h: "\<forall>v \<in> set (map snd ?wiki). v ''text'' \<noteq> None"
    by simp
  from init_deduplicates_in_first_seen_order [OF h, of "\<lambda>s. [s]"]
  obtain eng where e: "init (\<lambda>s. [s]) ?wiki = Inr eng" and d: "distinct (contexts eng)"
    by blast
  from e have "contexts eng = [''a'', ''b'']" and "ids eng = [0, 1]"
    by (auto simp: init_def text_of_def)
  with e d show ?thesis by simp
qed

section \<open>Retrieval\<close>

lemma get_relevant_doc_built:
  "get_relevant_doc (eng\<lparr>bm25 := Some bm\<rparr>) q k =
     Inr ((py_slice_to k (map (\<lambda>i. get_scores bm (tokenize_fn eng q) ! i)
                             (argsort (map uminus (get_scores bm (tokenize_fn eng q))))),
           map PyStr (get_top_n bm (tokenize_fn eng q) (contexts eng) k)),
          [Scored (tokenize_fn eng q), TopN (tokenize_fn eng q) k])"
  by (simp add: get_relevant_doc_def Let_def)

lemma make_row_texts:
  "make_row ex (map PyStr ts) =
     Inr \<lparr> row_question = question ex, row_id = example_id ex,
           context_id = map PyStr ts, row_context = join '' '' ts,
           original_context =
             (if example_context ex \<noteq> None \<and> answers ex \<noteq> None then example_context ex else None),
           row_answers =
             (if example_context ex \<noteq> None \<and> answers ex \<noteq> None then answers ex else None) \<rparr>"
  by (simp add: make_row_def py_join_texts)

lemma show_hit_fails:
  "show_hit eng scores (map PyStr ts) i = Inl IndexError
   \<or> show_hit eng scores (map PyStr ts) i = Inl TypeError"
  by (auto simp: show_hit_def py_index_def split: sum.splits)

text \<open>
  Claim C1, as the code has it. The batch form on an engine whose index is built never
  fails and returns one record per example, in order. The record's \<open>context_id\<close> is
  the list that \<^verbatim>\<open>get_top_n\<close> returned for the passage texts: passage texts, not
  passage ids. Its \<open>context\<close> is the same texts joined by single blanks. The claim's
  list of integers in \<open>0..N-1\<close> is not what the field holds.
\<close>

theorem retrieve_batch_context_id_holds_texts:
  "retrieve (eng\<lparr>bm25 := Some bm\<rparr>) (Batch dataset) topk =
     Inr (Table (map (\<lambda>ex.
            \<lparr> row_question = question ex, row_id = example_id ex,
              context_id = map PyStr (get_top_n bm (tokenize_fn eng (question ex)) (contexts eng) topk),
              row_context = join '' '' (get_top_n bm (tokenize_fn eng (question ex)) (contexts eng) topk),
              original_context =
                (if example_context ex \<noteq> None \<and> answers ex \<noteq> None then example_context ex else None),
              row_answers =
                (if example_context ex \<noteq> None \<and> answers ex \<noteq> None then answers ex else None) \<rparr>) dataset),
          concat (map (\<lambda>ex. [Scored (tokenize_fn eng (question ex)),
                                 TopN (tokenize_fn eng (question ex)) topk]) dataset) @ [Timed])"
  by (simp add: retrieve_def get_relevant_doc_built for_each_total zip_map_same for_each_map
        make_row_texts comp_def)

text \<open>One question, top 1, on the two-passage engine: the best passage has id 0, and
  \<open>context_id\<close> is the one-element list of its text.\<close>

theorem retrieve_batch_context_id_holds_texts_demo:
  "retrieve demo_engine
      (Batch [\<lparr> question = ''a'', example_id = ''q0'', example_context = None,
                 answers = (None :: unit option) \<rparr>]) 1 =
     Inr (Table [\<lparr> row_question = ''a'', row_id = ''q0'', context_id = [PyStr ''a b''],
                   row_context = ''a b'', original_context = None, row_answers = None \<rparr>],
          [Scored [''a''], TopN [''a''] 1, Timed])"
  using retrieve_batch_context_id_holds_texts [where eng = demo_engine and bm = demo_bm25
      and topk = 1 and dataset =
      "[\<lparr> question = ''a'', example_id = ''q0'', example_context = None,
          answers = (None :: unit option) \<rparr>]"]
  by (simp add: demo_engine_def demo_bm25_def py_slice_to_def)

text \<open>
  Claim C2, as the code has it. The single-query form with \<open>topk\<close> of at least 1 on an
  engine whose index is built never returns: its printing loop reads
  \<^verbatim>\<open>self.contexts[doc_indices[0]]\<close>, and \<open>doc_indices[0]\<close> is a passage text, so the
  lookup raises TypeError (IndexError when the index returned no score or no passage).
\<close>

theorem retrieve_query_raises:
  assumes "0 < topk"
  shows "retrieve (eng\<lparr>bm25 := Some bm\<rparr>) (Query q) topk = Inl IndexError
       \<or> retrieve (eng\<lparr>bm25 := Some bm\<rparr>) (Query q) topk = Inl TypeError"
proof -
  let ?e = "eng\<lparr>bm25 := Some bm\<rparr>"
  obtain s ts where g: "get_relevant_doc ?e q topk =
      Inr ((s, map PyStr ts), [Scored (tokenize_fn eng q), TopN (tokenize_fn eng q) topk])"
    using get_relevant_doc_built by blast
  have "show_hit ?e s (map PyStr ts) 0 = Inl IndexError
      \<or> show_hit ?e s (map PyStr ts) 0 = Inl TypeError"
    by (rule show_hit_fails)
  then have "for_each (show_hit ?e s (map PyStr ts)) (py_range topk) = Inl IndexError
     \<or> for_each (show_hit ?e s (map PyStr ts)) (py_range topk) = Inl TypeError"
    using assms by (auto simp: py_range_pos)
  then show ?thesis
    by (auto simp: retrieve_def g)
qed

theorem retrieve_query_raises_demo:
  "(0::int) < 1 \<and> retrieve demo_engine (Query ''a'') 1 = Inl TypeError"
  using retrieve_query_raises [where eng = demo_engine and bm = demo_bm25 and topk = 1
      and q = "''a''"]
  by (simp add: retrieve_def demo_engine_def demo_bm25_def get_relevant_doc_def py_slice_to_def
      py_range_def argsort_def show_hit_def py_index_def Let_def)

text \<open>
  Claim C10. On an engine whose index is built, an argument that is neither a string
  nor a dataset makes \<open>retrieve\<close> return Python's \<open>None\<close>; no call of the ranking index
  and no printed line come with it, whatever the engine, the argument and \<open>topk\<close>.
\<close>

theorem retrieve_other_returns_none:
  "retrieve (eng\<lparr>bm25 := Some bm\<rparr>) (Other v) topk = Inr (NoResult, [])"
  by (simp add: retrieve_def)

section \<open>Configuration defaults\<close>

text \<open>The defaults of the four groups whose fields are all plain \<^verbatim>\<open>field(...)\<close>
  objects are the literals of the data model.\<close>

lemma plain_group_defaults:
  "construct DataArguments [] =
     Inr [(''dataset_path'', PyStr ''/opt/ml/data/train_dataset''), (''max_length'', PyInt 512),
          (''stride'', PyInt 128), (''max_answer_length'', PyInt 32)]"
  "construct EarlyStoppingArguments [] =
     Inr [(''setting'', PyBool False), (''patience'', PyInt 5)]"
  "construct ModelArguments [] = Inr [(''name_or_path'', PyStr ''klue/bert-base'')]"
  by (simp_all add: construct_def dataclass_def DataArguments_def EarlyStoppingArguments_def
      ModelArguments_def init_field_def)

text \<open>
  Claim C4, as the code has it. Constructing the Inference group with no argument
  succeeds, and its \<open>topk\<close> is not the integer 5: it is the one-element tuple that holds
  the field object whose default is 5, because of the comma after the \<^verbatim>\<open>field(...)\<close>
  call. The output directory has its literal default.
\<close>

theorem inference_topk_default_is_a_tuple:
  "construct InferenceArguments [] =
     Inr [(''topk'', PyTuple [PyField (Some (PyInt 5))]),
          (''output_dir'', PyStr ''/opt/ml/code/outputs/sample'')]"
  by (simp add: construct_def dataclass_def InferenceArguments_def init_field_def)




section \<open>Mode dispatch\<close>

text \<open>The four recognized modes, for reference: each is routed to its routine, the
  \<open>retrieval_train\<close> mode to the placeholder line.\<close>

lemma inner_main_routes:
  assumes "entity (cfg_wandb cfg) = SStr e" and "project (cfg_wandb cfg) = SStr p"
  shows "mode cfg = SStr ''model_train'' \<Longrightarrow> inner_main cfg =
           Inr [Print (''Start '' @ format_scalar (name (cfg_project cfg)) @ '' !''),
                SetEnv ''WANDB_ENTITY'' e, SetEnv ''WANDB_PROJECT'' p,
                Call_train (cfg_project cfg) (cfg_model cfg) (cfg_data cfg) (cfg_train cfg)]"
    and "mode cfg = SStr ''hyperparameter_tune'' \<Longrightarrow> inner_main cfg =
           Inr [Print (''Start '' @ format_scalar (name (cfg_project cfg)) @ '' !''),
                SetEnv ''WANDB_ENTITY'' e, SetEnv ''WANDB_PROJECT'' p,
                Call_hp_optimizing (cfg_project cfg) (cfg_model cfg) (cfg_data cfg) (cfg_hp cfg)]"
    and "mode cfg = SStr ''retrieval_train'' \<Longrightarrow> inner_main cfg =
           Inr [Print (''Start '' @ format_scalar (name (cfg_project cfg)) @ '' !''),
                SetEnv ''WANDB_ENTITY'' e, SetEnv ''WANDB_PROJECT'' p, Print placeholder_line]"
    and "mode cfg = SStr ''inference'' \<Longrightarrow> inner_main cfg =
           Inr [Print (''Start '' @ format_scalar (name (cfg_project cfg)) @ '' !''),
                SetEnv ''WANDB_ENTITY'' e, SetEnv ''WANDB_PROJECT'' p,
                Call_inference (cfg_model cfg) (cfg_data cfg)]"
  using assms by (simp_all add: inner_main_def set_environ_def)




section \<open>Labelling loops\<close>

declare scan_up.simps [simp del] scan_down.simps [simp del] advance_start.simps [simp del]





lemma for_each_nth:
  "for_each f xs = Inr ys \<Longrightarrow>
     length ys = length xs \<and> (\<forall>i < length xs. f (xs ! i) = Inr (ys ! i))"
proof (induction xs arbitrary: ys)
  case Nil
  then show ?case by simp
next
  case (Cons x xs)
  then obtain y ys' where y: "f x = Inr y" and r: "for_each f xs = Inr ys'" and e: "ys = y # ys'"
    by (auto split: sum.splits)
  from Cons.IH[OF r] y e show ?case
    by (auto simp: nth_Cons split: nat.splits)
qed

















section \<open>Context span and answer span\<close>













section \<open>The train sub-modes, feature by feature\<close>

text \<open>When \<open>prepare_train_features\<close> returns, it has emitted one pair of labels per
  feature, and the pair at a position is the result of \<open>label_feature\<close> on the feature
  at that position and the answers of the example the feature comes from. The theorems
  below are stated for \<open>label_feature\<close>.\<close>

lemma prepare_train_features_labels:
  assumes "prepare_train_features tok args is_roberta examples = Inr out"
    and "enc = encode tok
           \<lparr> call_text = (if padding_side tok = ''right'' then map lstrip (batch_question examples)
                          else batch_context examples),
             call_text_pair = Some (if padding_side tok = ''right'' then batch_context examples
                                    else map lstrip (batch_question examples)),
             truncation = (if padding_side tok = ''right'' then ''only_second'' else ''only_first''),
             max_length = max_seq_length args,
             stride = Some (doc_stride args),
             return_overflowing_tokens = True,
             return_offsets_mapping = True,
             padding = ''max_length'',
             return_token_type_ids = Some (\<not> is_roberta) \<rparr>"
    and "i < length (offset_mapping enc)"
  shows "length (start_positions out) = length (offset_mapping enc)
       \<and> length (end_positions out) = length (offset_mapping enc)
       \<and> (\<exists>token_ids sids sample_index ans.
             py_index (input_ids enc) (int i) = Inr token_ids
           \<and> py_index (sequence_ids enc) (int i) = Inr sids
           \<and> py_index (overflow_to_sample_mapping enc) (int i) = Inr sample_index
           \<and> py_index (batch_answers examples) sample_index = Inr ans
           \<and> label_feature (padding_side tok = ''right'') (cls_token_id tok) token_ids sids
                (offset_mapping enc ! i) ans
              = Inr (start_positions out ! i, end_positions out ! i))"
proof -
  define body where "body = (\<lambda>(i, offs).
                    (case py_index (input_ids enc) i of
                       Inl e \<Rightarrow> Inl e
                     | Inr token_ids \<Rightarrow>
                         (case list_index token_ids (cls_token_id tok) of
                            Inl e \<Rightarrow> Inl e
                          | Inr cls_index \<Rightarrow>
                         (case py_index (sequence_ids enc) i of
                            Inl e \<Rightarrow> Inl e
                          | Inr sids \<Rightarrow>
                              (case py_index (overflow_to_sample_mapping enc) i of
                                 Inl e \<Rightarrow> Inl e
                               | Inr sample_index \<Rightarrow>
                                   (case py_index (batch_answers examples) sample_index of
                                      Inl e \<Rightarrow> Inl e
                                    | Inr ans \<Rightarrow>
                                        label_feature (padding_side tok = ''right'')
                                          (cls_token_id tok) token_ids sids offs ans))))))"
  define steps where "steps = zip (map int [0..<length (offset_mapping enc)]) (offset_mapping enc)"
  from assms(1) obtain labels where l: "for_each body steps = Inr labels"
    and o: "start_positions out = map fst labels" "end_positions out = map snd labels"
    unfolding prepare_train_features_def Let_def body_def steps_def assms(2)
    by (auto split: sum.splits)
  have i: "i < length steps" "steps ! i = (int i, offset_mapping enc ! i)"
    using assms(3) by (simp_all add: steps_def)
  from for_each_nth[OF l] i have b: "body (int i, offset_mapping enc ! i) = Inr (labels ! i)"
    and n: "length labels = length steps" by auto
  have "labels ! i = (start_positions out ! i, end_positions out ! i)"
    using o n i(1) by simp
  with b have "\<exists>token_ids sids sample_index ans.
             py_index (input_ids enc) (int i) = Inr token_ids
           \<and> py_index (sequence_ids enc) (int i) = Inr sids
           \<and> py_index (overflow_to_sample_mapping enc) (int i) = Inr sample_index
           \<and> py_index (batch_answers examples) sample_index = Inr ans
           \<and> label_feature (padding_side tok = ''right'') (cls_token_id tok) token_ids sids
                (offset_mapping enc ! i) ans
              = Inr (start_positions out ! i, end_positions out ! i)"
    unfolding body_def by (auto split: sum.splits)
  moreover have "length steps = length (offset_mapping enc)"
    by (simp add: steps_def)
  ultimately show ?thesis
    using o n by simp
qed

text \<open>The same for the sequence-to-sequence variant and \<open>label_feature_T5\<close>.\<close>

lemma prepare_train_features_T5_labels:
  assumes "prepare_train_features_T5 tok examples = Inr out"
    and "extra_inputs = map prompt_prefix (map lstrip (batch_question examples))"
    and "extras = encode tok
           \<lparr> call_text = extra_inputs, call_text_pair = None, truncation = ''True'',
             max_length = 512, stride = None, return_overflowing_tokens = False,
             return_offsets_mapping = True, padding = ''False'',
             return_token_type_ids = None \<rparr>"
    and "enc = encode tok
           \<lparr> call_text = map (\<lambda>(q, c). prompt q c)
                           (zip (map lstrip (batch_question examples)) (batch_context examples)),
             call_text_pair = None, truncation = ''True'',
             max_length = 512, stride = None, return_overflowing_tokens = False,
             return_offsets_mapping = True, padding = ''max_length'',
             return_token_type_ids = None \<rparr>"
    and "i < length (offset_mapping enc)"
  shows "\<exists>token_ids extra_ids extra_input ans.
             py_index (input_ids enc) (int i) = Inr token_ids
           \<and> py_index (input_ids extras) (int i) = Inr extra_ids
           \<and> py_index extra_inputs (int i) = Inr extra_input
           \<and> py_index (batch_answers examples) (int i) = Inr ans
           \<and> label_feature_T5 (eos_token_id tok) (pad_token_id tok) token_ids
                (offset_mapping enc ! i) extra_ids extra_input ans
              = Inr (start_positions out ! i, end_positions out ! i)"
proof -
  define body where "body = (\<lambda>(i, offs).
                    (case py_index (input_ids enc) i of
                       Inl e \<Rightarrow> Inl e
                     | Inr token_ids \<Rightarrow>
                         (case py_index (input_ids extras) i of
                            Inl e \<Rightarrow> Inl e
                          | Inr extra_ids \<Rightarrow>
                              (case py_index extra_inputs i of
                                 Inl e \<Rightarrow> Inl e
                               | Inr extra_input \<Rightarrow>
                                   (case py_index (batch_answers examples) i of
                                      Inl e \<Rightarrow> Inl e
                                    | Inr ans \<Rightarrow>
                                        label_feature_T5 (eos_token_id tok) (pad_token_id tok)
                                          token_ids offs extra_ids extra_input ans)))))"
  define steps where "steps = zip (map int [0..<length (offset_mapping enc)]) (offset_mapping enc)"
  from assms(1) obtain labels where l: "for_each body steps = Inr labels"
    and o: "start_positions out = map fst labels" "end_positions out = map snd labels"
    unfolding prepare_train_features_T5_def Let_def body_def steps_def assms(2,3,4)
    by (auto split: sum.splits)
  have i: "i < length steps" "steps ! i = (int i, offset_mapping enc ! i)"
    using assms(5) by (simp_all add: steps_def)
  from for_each_nth[OF l] i have b: "body (int i, offset_mapping enc ! i) = Inr (labels ! i)"
    and n: "length labels = length steps" by auto
  have "labels ! i = (start_positions out ! i, end_positions out ! i)"
    using o n i(1) by simp
  with b show ?thesis
    unfolding body_def by (auto split: sum.splits)
qed






text \<open>The case the amended statement leaves out: the answer \<open>fox\<close> lies in the last
  context token, no later token starts after it (the separator and the padding have the
  offsets (0, 0)), and the start loop runs to the end of the feature.\<close>

lemma label_feature_answer_in_last_token:
  "label_feature True 2 fox_ids fox_sequence_ids fox_offsets
     \<lparr> answer_start = [16], answer_text = [latin ''fox''] \<rparr> = Inr (11, 8)"
  by code_simp

section \<open>Range of the labels\<close>

text \<open>The end loop has no lower bound. On a feature whose first and last tokens both
  end at or after the answer's end (context first, no special token at either end) the
  index wraps around and the end label is negative; the statements below exclude such
  features.\<close>

lemma end_label_can_wrap:
  "label_feature False 2 [21, 22, 2, 11, 12] [Some 0, Some 0, None, Some 1, Some 1]
     [(0, 5), (5, 9), (0, 0), (0, 3), (3, 8)]
     \<lparr> answer_start = [1], answer_text = [latin ''he''] \<rparr> = Inr (0, - 2)"
  by code_simp






end
